theory Spec2Isabelle
  imports Complex_Main
begin

section \<open>Eye animation controller (eye\_controller.py)\<close>

text \<open>
  A shallow embedding of \<^verbatim>\<open>src/eye_controller.py\<close> and of the constants of
  \<^verbatim>\<open>src/config.py\<close> it reads.

  Conventions of the model.
  \<^item> Python floats are idealised as \<^typ>\<open>real\<close>: positions and blink factors are exact
    real numbers, and rounding is not modelled.
  \<^item> Python ints are \<^typ>\<open>int\<close>. Timestamps handed to the eye methods are the
    integer microsecond count that \<^verbatim>\<open>EyeController.update\<close> computes with
    \<^verbatim>\<open>int(time.time() * 1000000)\<close>. The fields \<^verbatim>\<open>last_saccade_stop\<close>,
    \<^verbatim>\<open>last_blink_time\<close> and \<^verbatim>\<open>next_blink_time\<close> start as floats in the
    constructors and are therefore reals.
  \<^item> Mutation of \<^verbatim>\<open>self\<close> is explicit state passing: a method takes the object and
    returns the new one.
  \<^item> The clock and the random source are inputs. The random source is a sequence of raw
    draws, one consumed by each call into the \<^verbatim>\<open>random\<close> module.
  \<^item> An exception is the \<open>Inl\<close> branch of a sum.
  \<^item> The \<^verbatim>\<open>display\<close> handle of an eye is a hardware object that no modelled
    method reads; it is left out of the record.
\<close>

subsection \<open>config.py\<close>

definition DISPLAY_SIZE :: int where "DISPLAY_SIZE = 240"

definition MODE_TRACKING :: string where "MODE_TRACKING = ''tracking''"
definition MODE_WANDERING :: string where "MODE_WANDERING = ''wandering''"
definition MODE_REST :: string where "MODE_REST = ''rest''"

definition EYE_MODES :: "(string \<times> string) list" where
  "EYE_MODES = [(''TRACKING'', MODE_TRACKING), (''WANDERING'', MODE_WANDERING), (''REST'', MODE_REST)]"

definition DEFAULT_MODE :: string where "DEFAULT_MODE = MODE_TRACKING"

definition SACCADE_MIN_DURATION :: int where "SACCADE_MIN_DURATION = 83000"
definition SACCADE_MAX_DURATION :: int where "SACCADE_MAX_DURATION = 166000"
definition MICROSACCADE_MIN_DURATION :: int where "MICROSACCADE_MIN_DURATION = 7000"
definition MICROSACCADE_MAX_DURATION :: int where "MICROSACCADE_MAX_DURATION = 25000"
definition GAZE_MAX :: int where "GAZE_MAX = 3000000"

definition BLINK_MIN_DURATION :: int where "BLINK_MIN_DURATION = 36000"
definition BLINK_MAX_DURATION :: int where "BLINK_MAX_DURATION = 72000"
definition BLINK_INTERVAL_MIN :: int where "BLINK_INTERVAL_MIN = 4000000"

subsection \<open>Library calls: exceptions, random, math\<close>

datatype py_error = ZeroDivisionError | ValueError | KeyError

text \<open>
  The random source. \<open>g 0\<close> is the next raw draw; a call consumes it and shifts
  the sequence.
\<close>

type_synonym rng = "nat \<Rightarrow> nat"

definition rng_next :: "rng \<Rightarrow> rng" where
  "rng_next g = (\<lambda>i. g (Suc i))"

text \<open>
  \<^verbatim>\<open>random.randint(a, b)\<close>: an integer \<open>N\<close> with \<open>a \<le> N \<le> b\<close>; an empty range
  raises \<^verbatim>\<open>ValueError\<close>. Every value of the range is the result for some raw draw.
\<close>

definition randint :: "int \<Rightarrow> int \<Rightarrow> rng \<Rightarrow> py_error + (int \<times> rng)" where
  "randint a b g =
     (if b < a then Inl ValueError
      else Inr (a + int (g 0) mod (b - a + 1), rng_next g))"

text \<open>
  \<^verbatim>\<open>random.random()\<close>: a multiple of \<open>2\<^sup>-\<^sup>5\<^sup>3\<close> in \<open>[0, 1)\<close>.
  \<^verbatim>\<open>random.uniform(a, b)\<close> is \<^verbatim>\<open>a + (b - a) * random()\<close>.
\<close>

definition random_unit :: "rng \<Rightarrow> real \<times> rng" where
  "random_unit g = (real (g 0 mod 2 ^ 53) / 2 ^ 53, rng_next g)"

definition uniform :: "real \<Rightarrow> real \<Rightarrow> rng \<Rightarrow> real \<times> rng" where
  "uniform a b g = (case random_unit g of (u, g') \<Rightarrow> (a + (b - a) * u, g'))"

text \<open>\<^verbatim>\<open>math.sqrt\<close> raises \<^verbatim>\<open>ValueError\<close> on a negative argument.\<close>

definition math_sqrt :: "real \<Rightarrow> py_error + real" where
  "math_sqrt x = (if x < 0 then Inl ValueError else Inr (sqrt x))"

text \<open>True division \<^verbatim>\<open>a / b\<close> of two ints.\<close>

definition truediv :: "int \<Rightarrow> int \<Rightarrow> py_error + real" where
  "truediv a b = (if b = 0 then Inl ZeroDivisionError else Inr (real_of_int a / real_of_int b))"

subsection \<open>class EyeState, class Eye\<close>

datatype EyeState = NOBLINK | ENBLINK | DEBLINK

record Eye =
  name :: string
  eye_x :: real
  eye_y :: real
  target_x :: real
  target_y :: real
  in_motion :: bool
  move_start_time :: int
  move_duration :: int
  old_x :: real
  old_y :: real
  new_x :: real
  new_y :: real
  blink_state :: EyeState
  blink_start_time :: int
  blink_duration :: int
  blink_factor :: real
  pupil_factor :: real
  upper_lid_factor :: real
  lower_lid_factor :: real
  last_saccade_stop :: real
  saccade_interval :: int

text \<open>
  \<^verbatim>\<open>Eye.__init__(name, display)\<close>; \<open>t\<close> is the value of
  \<^verbatim>\<open>time.time() * 1000000\<close> read by the constructor.
\<close>

definition Eye_init :: "string \<Rightarrow> real \<Rightarrow> Eye" where
  "Eye_init nm t =
     \<lparr> name = nm, eye_x = 0, eye_y = 0, target_x = 0, target_y = 0,
       in_motion = False, move_start_time = 0, move_duration = 0,
       old_x = 0, old_y = 0, new_x = 0, new_y = 0,
       blink_state = NOBLINK, blink_start_time = 0, blink_duration = 0, blink_factor = 0,
       pupil_factor = 0.5, upper_lid_factor = 1, lower_lid_factor = 1,
       last_saccade_stop = t, saccade_interval = 0 \<rparr>"

definition update_autonomous :: "int \<Rightarrow> Eye \<Rightarrow> rng \<Rightarrow> py_error + (Eye \<times> rng)" where
  "update_autonomous current_time_us eye g =
    (let dt = current_time_us - move_start_time eye in
     if in_motion eye then
       (if dt \<ge> move_duration eye then
          (let eye1 = eye\<lparr>in_motion := False,
                          old_x := new_x eye, eye_x := new_x eye,
                          old_y := new_y eye, eye_y := new_y eye\<rparr>;
               limit = min 1000000 GAZE_MAX
           in case randint 35000 limit g of
                Inl err \<Rightarrow> Inl err
              | Inr (d, g1) \<Rightarrow>
                  (let eye2 = eye1\<lparr>move_duration := d\<rparr> in
                   if saccade_interval eye2 = 0 then
                     (case randint (move_duration eye2) GAZE_MAX g1 of
                        Inl err \<Rightarrow> Inl err
                      | Inr (i, g2) \<Rightarrow>
                          Inr (eye2\<lparr>last_saccade_stop := real_of_int current_time_us,
                                    saccade_interval := i,
                                    move_start_time := current_time_us\<rparr>, g2))
                   else Inr (eye2\<lparr>move_start_time := current_time_us\<rparr>, g1)))
        else
          (case truediv dt (move_duration eye) of
             Inl err \<Rightarrow> Inl err
           | Inr e0 \<Rightarrow>
               (let e = 3 * e0 * e0 - 2 * e0 * e0 * e0 in
                Inr (eye\<lparr>eye_x := old_x eye + (new_x eye - old_x eye) * e,
                         eye_y := old_y eye + (new_y eye - old_y eye) * e\<rparr>, g))))
     else
       (let eye1 = eye\<lparr>eye_x := old_x eye, eye_y := old_y eye\<rparr> in
        if dt > move_duration eye1 then
          (if real_of_int current_time_us - last_saccade_stop eye1
                > real_of_int (saccade_interval eye1) then
             (let r = real_of_int DISPLAY_SIZE * 0.75 in
              case uniform (- r) r g of (nx, g1) \<Rightarrow>
              case math_sqrt (r * r - nx * nx) of
                Inl err \<Rightarrow> Inl err
              | Inr h \<Rightarrow>
              case uniform (- h) h g1 of (ny, g2) \<Rightarrow>
              case randint SACCADE_MIN_DURATION SACCADE_MAX_DURATION g2 of
                Inl err \<Rightarrow> Inl err
              | Inr (d, g3) \<Rightarrow>
                  Inr (eye1\<lparr>new_x := nx, new_y := ny, move_duration := d,
                            saccade_interval := 0,
                            move_start_time := current_time_us, in_motion := True\<rparr>, g3))
           else
             (let r = real_of_int DISPLAY_SIZE * 0.07 in
              case uniform (- r) r g of (dx, g1) \<Rightarrow>
              case math_sqrt (r * r - dx * dx) of
                Inl err \<Rightarrow> Inl err
              | Inr h \<Rightarrow>
              case uniform (- h) h g1 of (dy, g2) \<Rightarrow>
              case randint MICROSACCADE_MIN_DURATION MICROSACCADE_MAX_DURATION g2 of
                Inl err \<Rightarrow> Inl err
              | Inr (d, g3) \<Rightarrow>
                  Inr (eye1\<lparr>new_x := eye_x eye1 + dx, new_y := eye_y eye1 + dy,
                            move_duration := d,
                            move_start_time := current_time_us, in_motion := True\<rparr>, g3)))
        else Inr (eye1, g)))"

definition update_tracking :: "real \<Rightarrow> real \<Rightarrow> Eye \<Rightarrow> Eye" where
  "update_tracking tx ty eye =
     (let r = real_of_int DISPLAY_SIZE * 0.9 in
      eye\<lparr>eye_x := tx * r, eye_y := ty * r\<rparr>)"

definition update_blink :: "int \<Rightarrow> Eye \<Rightarrow> py_error + Eye" where
  "update_blink current_time_us eye =
     (if blink_state eye \<noteq> NOBLINK then
        (let dt = current_time_us - blink_start_time eye in
         if dt \<ge> blink_duration eye then
           (if blink_state eye = ENBLINK then
              Inr (eye\<lparr>blink_state := DEBLINK,
                       blink_duration := blink_duration eye * 2,
                       blink_start_time := current_time_us,
                       blink_factor := 1\<rparr>)
            else
              Inr (eye\<lparr>blink_state := NOBLINK, blink_factor := 0\<rparr>))
         else
           (case truediv dt (blink_duration eye) of
              Inl err \<Rightarrow> Inl err
            | Inr f \<Rightarrow>
                Inr (eye\<lparr>blink_factor := (if blink_state eye = DEBLINK then 1 - f else f)\<rparr>)))
      else Inr eye)"

definition start_blink :: "int \<Rightarrow> int \<Rightarrow> Eye \<Rightarrow> Eye" where
  "start_blink current_time_us duration eye =
     (if blink_state eye = NOBLINK then
        eye\<lparr>blink_state := ENBLINK,
            blink_start_time := current_time_us,
            blink_duration := duration\<rparr>
      else eye)"

subsection \<open>class EyeController\<close>

text \<open>
  \<^verbatim>\<open>self.eyes\<close> is a dict from eye name to eye, iterated in insertion order.
  It is an association list; \<open>eyes_values\<close> is \<^verbatim>\<open>self.eyes.values()\<close>.
\<close>

type_synonym eyes_dict = "(string \<times> Eye) list"

record EyeController =
  mode :: string
  eyes :: eyes_dict
  last_blink_time :: real
  next_blink_time :: real

definition eyes_values :: "eyes_dict \<Rightarrow> Eye list" where
  "eyes_values d = map snd d"

text \<open>
  \<^verbatim>\<open>EyeController.__init__\<close>: \<open>t1\<close>, \<open>t2\<close>, \<open>t3\<close> are the clock readings of the three
  \<^verbatim>\<open>Eye\<close> constructors and \<open>t\<close> the controller's own. The line printed by the
  constructor is not modelled.
\<close>

definition EyeController_init ::
  "real \<Rightarrow> real \<Rightarrow> real \<Rightarrow> real \<Rightarrow> rng \<Rightarrow> py_error + (EyeController \<times> rng)" where
  "EyeController_init t1 t2 t3 t g =
     (case randint BLINK_INTERVAL_MIN (BLINK_INTERVAL_MIN * 2) g of
        Inl err \<Rightarrow> Inl err
      | Inr (i, g1) \<Rightarrow>
          Inr (\<lparr> mode = DEFAULT_MODE,
                 eyes = [(''left'', Eye_init ''left'' t1),
                         (''right'', Eye_init ''right'' t2),
                         (''middle'', Eye_init ''middle'' t3)],
                 last_blink_time = t,
                 next_blink_time = t + real_of_int i \<rparr>, g1))"

text \<open>
  \<^verbatim>\<open>set_mode\<close> has no \<^verbatim>\<open>return\<close> statement: the call evaluates to
  \<^verbatim>\<open>None\<close> on both branches. The model returns the value of the call, the line
  printed and the new controller.
\<close>

datatype py_value = PyNone | PyBool bool

definition set_mode :: "string \<Rightarrow> EyeController \<Rightarrow> py_value \<times> string \<times> EyeController" where
  "set_mode m c =
     (if m \<in> set (map snd EYE_MODES) then
        (PyNone, ''Eye mode changed to: '' @ m, c\<lparr>mode := m\<rparr>)
      else
        (PyNone, ''Invalid mode: '' @ m, c))"

text \<open>The three loops and the keyed accesses of \<^verbatim>\<open>update\<close>.\<close>

fun update_blink_all :: "int \<Rightarrow> eyes_dict \<Rightarrow> py_error + eyes_dict" where
  "update_blink_all current_time_us [] = Inr []"
| "update_blink_all current_time_us ((k, eye) # rest) =
     (case update_blink current_time_us eye of
        Inl err \<Rightarrow> Inl err
      | Inr eye' \<Rightarrow>
          (case update_blink_all current_time_us rest of
             Inl err \<Rightarrow> Inl err
           | Inr rest' \<Rightarrow> Inr ((k, eye') # rest')))"

fun update_autonomous_all :: "int \<Rightarrow> eyes_dict \<Rightarrow> rng \<Rightarrow> py_error + (eyes_dict \<times> rng)" where
  "update_autonomous_all current_time_us [] g = Inr ([], g)"
| "update_autonomous_all current_time_us ((k, eye) # rest) g =
     (case update_autonomous current_time_us eye g of
        Inl err \<Rightarrow> Inl err
      | Inr (eye', g1) \<Rightarrow>
          (case update_autonomous_all current_time_us rest g1 of
             Inl err \<Rightarrow> Inl err
           | Inr (rest', g2) \<Rightarrow> Inr ((k, eye') # rest', g2)))"

fun store_eye :: "string \<Rightarrow> Eye \<Rightarrow> eyes_dict \<Rightarrow> eyes_dict" where
  "store_eye k eye' [] = []"
| "store_eye k eye' ((k', eye) # rest) =
     (if k' = k then (k', eye') # rest else (k', eye) # store_eye k eye' rest)"

text \<open>\<^verbatim>\<open>self.eyes[k].update_autonomous(now)\<close>; a missing key raises.\<close>

definition update_autonomous_at ::
  "string \<Rightarrow> int \<Rightarrow> eyes_dict \<Rightarrow> rng \<Rightarrow> py_error + (eyes_dict \<times> rng)" where
  "update_autonomous_at k current_time_us d g =
     (case map_of d k of
        None \<Rightarrow> Inl KeyError
      | Some eye \<Rightarrow>
          (case update_autonomous current_time_us eye g of
             Inl err \<Rightarrow> Inl err
           | Inr (eye', g1) \<Rightarrow> Inr (store_eye k eye' d, g1)))"

definition update_tracking_at ::
  "string \<Rightarrow> real \<Rightarrow> real \<Rightarrow> eyes_dict \<Rightarrow> py_error + eyes_dict" where
  "update_tracking_at k tx ty d =
     (case map_of d k of
        None \<Rightarrow> Inl KeyError
      | Some eye \<Rightarrow> Inr (store_eye k (update_tracking tx ty eye) d))"

text \<open>Lines 193 to 198 of \<^verbatim>\<open>update\<close>: the blink scheduler.\<close>

definition schedule_blink ::
  "int \<Rightarrow> EyeController \<Rightarrow> rng \<Rightarrow> py_error + (EyeController \<times> rng)" where
  "schedule_blink current_time_us c g =
     (if real_of_int current_time_us \<ge> next_blink_time c then
        (case randint BLINK_MIN_DURATION BLINK_MAX_DURATION g of
           Inl err \<Rightarrow> Inl err
         | Inr (duration, g1) \<Rightarrow>
             (let eyes1 = map (\<lambda>(k, eye). (k, start_blink current_time_us duration eye)) (eyes c) in
              case randint BLINK_INTERVAL_MIN (BLINK_INTERVAL_MIN * 2) g1 of
                Inl err \<Rightarrow> Inl err
              | Inr (i, g2) \<Rightarrow>
                  Inr (c\<lparr>eyes := eyes1,
                         last_blink_time := real_of_int current_time_us,
                         next_blink_time := real_of_int (current_time_us + duration * 3 + i)\<rparr>,
                       g2)))
      else Inr (c, g))"

text \<open>Lines 204 to 223 of \<^verbatim>\<open>update\<close>: the dispatch on the mode.\<close>

definition dispatch_mode ::
  "int \<Rightarrow> (real \<times> real) option \<Rightarrow> EyeController \<Rightarrow> rng \<Rightarrow> py_error + (EyeController \<times> rng)" where
  "dispatch_mode current_time_us face_position c g =
     (if mode c = MODE_TRACKING then
        (case (case face_position of
                 Some (fx, fy) \<Rightarrow>
                   (case update_tracking_at ''middle'' fx fy (eyes c) of
                      Inl err \<Rightarrow> Inl err
                    | Inr d \<Rightarrow> Inr (d, g))
               | None \<Rightarrow> update_autonomous_at ''middle'' current_time_us (eyes c) g) of
           Inl err \<Rightarrow> Inl err
         | Inr (d1, g1) \<Rightarrow>
             (case update_autonomous_at ''left'' current_time_us d1 g1 of
                Inl err \<Rightarrow> Inl err
              | Inr (d2, g2) \<Rightarrow>
                  (case update_autonomous_at ''right'' current_time_us d2 g2 of
                     Inl err \<Rightarrow> Inl err
                   | Inr (d3, g3) \<Rightarrow> Inr (c\<lparr>eyes := d3\<rparr>, g3))))
      else if mode c = MODE_WANDERING then
        (case update_autonomous_all current_time_us (eyes c) g of
           Inl err \<Rightarrow> Inl err
         | Inr (d, g1) \<Rightarrow> Inr (c\<lparr>eyes := d\<rparr>, g1))
      else if mode c = MODE_REST then
        Inr (c\<lparr>eyes := map (\<lambda>(k, eye). (k, eye\<lparr>blink_factor := 1\<rparr>)) (eyes c)\<rparr>, g)
      else Inr (c, g))"

text \<open>
  \<^verbatim>\<open>EyeController.update(face_position)\<close>; \<open>current_time_us\<close> is the clock
  reading \<^verbatim>\<open>int(time.time() * 1000000)\<close> of its first line.
\<close>

definition update ::
  "int \<Rightarrow> (real \<times> real) option \<Rightarrow> EyeController \<Rightarrow> rng \<Rightarrow> py_error + (EyeController \<times> rng)" where
  "update current_time_us face_position c g =
     (case schedule_blink current_time_us c g of
        Inl err \<Rightarrow> Inl err
      | Inr (c1, g1) \<Rightarrow>
          (case update_blink_all current_time_us (eyes c1) of
             Inl err \<Rightarrow> Inl err
           | Inr d \<Rightarrow> dispatch_mode current_time_us face_position (c1\<lparr>eyes := d\<rparr>) g1))"

text \<open>
  The caller's loop (\<^verbatim>\<open>main.py\<close>) calls \<^verbatim>\<open>update\<close> once per tick;
  \<open>run_ticks\<close> is a run of consecutive ticks on their clock readings and targets.
\<close>

fun run_ticks ::
  "(int \<times> (real \<times> real) option) list \<Rightarrow> EyeController \<Rightarrow> rng \<Rightarrow> py_error + (EyeController \<times> rng)" where
  "run_ticks [] c g = Inr (c, g)"
| "run_ticks ((current_time_us, face_position) # ts) c g =
     (case update current_time_us face_position c g of
        Inl err \<Rightarrow> Inl err
      | Inr (c1, g1) \<Rightarrow> run_ticks ts c1 g1)"

subsection \<open>Notions of the specification\<close>

text \<open>
  The fields the specification groups as the eye's MotionState, in its order:
  old, new, start time, duration, moving, saccade interval, last saccade stop.
\<close>

definition motion_state ::
  "Eye \<Rightarrow> (real \<times> real) \<times> (real \<times> real) \<times> int \<times> int \<times> bool \<times> int \<times> real" where
  "motion_state eye =
     ((old_x eye, old_y eye), (new_x eye, new_y eye), move_start_time eye, move_duration eye,
      in_motion eye, saccade_interval eye, last_saccade_stop eye)"

text \<open>The fields the specification groups as the eye's BlinkState: variant, start, duration.\<close>

definition blink_timing :: "Eye \<Rightarrow> EyeState \<times> int \<times> int" where
  "blink_timing eye = (blink_state eye, blink_start_time eye, blink_duration eye)"

text \<open>Both, for every eye of the controller's dict, keyed by the eye's name.\<close>

definition motion_states ::
  "eyes_dict \<Rightarrow> (string \<times> ((real \<times> real) \<times> (real \<times> real) \<times> int \<times> int \<times> bool \<times> int \<times> real)) list" where
  "motion_states d = map (\<lambda>(k, eye). (k, motion_state eye)) d"

definition blink_timings :: "eyes_dict \<Rightarrow> (string \<times> (EyeState \<times> int \<times> int)) list" where
  "blink_timings d = map (\<lambda>(k, eye). (k, blink_timing eye)) d"

text \<open>The invariant of the data model: an eye that is not moving is rendered at \<open>old\<close>.\<close>

definition settled_at_old :: "Eye \<Rightarrow> bool" where
  "settled_at_old eye = (\<not> in_motion eye \<longrightarrow> eye_x eye = old_x eye \<and> eye_y eye = old_y eye)"

text \<open>
  An eye whose blink is in progress has a positive blink duration; \<open>start_blink\<close> is
  only ever called with a drawn duration of at least \<open>BLINK_MIN_DURATION\<close>, so every eye
  the controller builds and updates is in this condition, and \<open>update_blink\<close> cannot
  divide by zero on it.
\<close>

definition blink_ready :: "Eye \<Rightarrow> bool" where
  "blink_ready eye = (blink_state eye \<noteq> NOBLINK \<longrightarrow> 0 < blink_duration eye)"

definition all_blink_ready :: "eyes_dict \<Rightarrow> bool" where
  "all_blink_ready d = list_all blink_ready (eyes_values d)"

text \<open>The Euclidean length of a displacement.\<close>

definition dist2 :: "real \<Rightarrow> real \<Rightarrow> real" where
  "dist2 x y = sqrt (x * x + y * y)"

subsection \<open>Fixtures\<close>

text \<open>
  The controller that \<^verbatim>\<open>EyeController.__init__\<close> builds when every clock reading
  is 0 and the raw draw is 0.
\<close>

definition fixture_controller :: EyeController where
  "fixture_controller =
     \<lparr> mode = DEFAULT_MODE,
       eyes = [(''left'', Eye_init ''left'' 0),
               (''right'', Eye_init ''right'' 0),
               (''middle'', Eye_init ''middle'' 0)],
       last_blink_time = 0,
       next_blink_time = 4000000 \<rparr>"

text \<open>An eye in the middle of a move from the origin to (108, 144), started at time 1000.\<close>

definition fixture_moving_eye :: Eye where
  "fixture_moving_eye =
     (Eye_init ''left'' 0)\<lparr>in_motion := True, move_start_time := 1000, move_duration := 100000,
                            new_x := 108, new_y := 144\<rparr>"

text \<open>The fixture controller after \<^verbatim>\<open>set_mode('rest')\<close>.\<close>

definition rest_fixture :: EyeController where
  "rest_fixture = fixture_controller\<lparr>mode := MODE_REST\<rparr>"

section \<open>Properties\<close>

lemma fixture_controller_init:
  "EyeController_init 0 0 0 0 (\<lambda>_. 0) = Inr (fixture_controller, \<lambda>_. 0)"
  by (simp add: EyeController_init_def randint_def rng_next_def fixture_controller_def
      BLINK_INTERVAL_MIN_def)

subsection \<open>The random source\<close>

text \<open>
  What a draw can be: \<open>randint\<close> on a non-empty range returns a member of the range and
  every member is returned for some raw draw; \<open>uniform\<close> stays between its bounds.
\<close>

lemma randint_range:
  assumes "a \<le> b"
  shows "\<exists>n. randint a b g = Inr (n, rng_next g) \<and> a \<le> n \<and> n \<le> b"
proof -
  have pos: "0 < b - a + 1" using assms by simp
  have "0 \<le> int (g 0) mod (b - a + 1)" using pos by simp
  moreover have "int (g 0) mod (b - a + 1) < b - a + 1" using pos by (rule pos_mod_bound)
  ultimately have "a \<le> a + int (g 0) mod (b - a + 1) \<and> a + int (g 0) mod (b - a + 1) \<le> b"
    by linarith
  then show ?thesis using assms by (simp add: randint_def)
qed

lemma randint_attains:
  assumes "a \<le> n" and "n \<le> b"
  shows "randint a b (\<lambda>_. nat (n - a)) = Inr (n, \<lambda>_. nat (n - a))"
  using assms by (simp add: randint_def rng_next_def)

lemma random_unit_range:
  "0 \<le> fst (random_unit g) \<and> fst (random_unit g) < 1 \<and> snd (random_unit g) = rng_next g"
proof -
  have "g 0 mod 2 ^ 53 < (2::nat) ^ 53" by simp
  then have "real (g 0 mod 2 ^ 53) < real ((2::nat) ^ 53)" by (simp only: of_nat_less_iff)
  then show ?thesis by (simp add: random_unit_def)
qed

lemma uniform_range:
  assumes "a \<le> b"
  shows "a \<le> fst (uniform a b g) \<and> fst (uniform a b g) \<le> b \<and> snd (uniform a b g) = rng_next g"
proof -
  obtain u g' where ug: "random_unit g = (u, g')" by (cases "random_unit g")
  with random_unit_range [of g] have u: "0 \<le> u" "u < 1" "g' = rng_next g" by simp_all
  have "0 \<le> (b - a) * u" using assms u by simp
  moreover have "(b - a) * u \<le> (b - a) * 1"
    using assms u by (intro mult_left_mono) simp_all
  ultimately show ?thesis using ug u by (simp add: uniform_def)
qed

lemma in_disc:
  fixes r x y :: real
  assumes "0 \<le> r" and "- r \<le> x" and "x \<le> r"
    and "- sqrt (r * r - x * x) \<le> y" and "y \<le> sqrt (r * r - x * x)"
  shows "dist2 x y \<le> r"
proof -
  have xx: "x * x \<le> r * r" using assms(1-3) by (metis abs_le_iff abs_mult_self_eq abs_of_nonneg mult_mono' abs_ge_zero minus_le_iff)
  then have nn: "0 \<le> r * r - x * x" by simp
  have "\<bar>y\<bar> \<le> sqrt (r * r - x * x)" using assms(4,5) by simp
  then have "\<bar>y\<bar> * \<bar>y\<bar> \<le> sqrt (r * r - x * x) * sqrt (r * r - x * x)"
    using nn by (intro mult_mono) simp_all
  then have "y * y \<le> r * r - x * x" using nn by simp
  then have "x * x + y * y \<le> r * r" by simp
  then have "sqrt (x * x + y * y) \<le> sqrt (r * r)" by (simp only: real_sqrt_le_iff)
  then show ?thesis using assms(1) by (simp add: dist2_def)
qed

lemma hold_limit: "(35000::int) \<le> min 1000000 GAZE_MAX \<and> min 1000000 GAZE_MAX \<le> GAZE_MAX"
  by (simp add: GAZE_MAX_def)

subsection \<open>Tracking\<close>

text \<open>
  C1. For every eye and every target \<open>(tx, ty)\<close>, in particular every target with both
  components in \<open>[-1, 1]\<close>, \<open>update_tracking tx ty\<close> sets the rendered position to
  \<open>(tx * 0.9 * DISPLAY_SIZE, ty * 0.9 * DISPLAY_SIZE)\<close> in that one call, whatever
  the motion state is; for the target \<open>(0.5, -0.5)\<close> the position is
  \<open>(0.45 * DISPLAY_SIZE, -0.45 * DISPLAY_SIZE)\<close>.
\<close>

theorem update_tracking_position:
  "eye_x (update_tracking tx ty eye) = tx * 0.9 * real_of_int DISPLAY_SIZE \<and>
   eye_y (update_tracking tx ty eye) = ty * 0.9 * real_of_int DISPLAY_SIZE \<and>
   eye_x (update_tracking 0.5 (- 0.5) eye) = 0.45 * real_of_int DISPLAY_SIZE \<and>
   eye_y (update_tracking 0.5 (- 0.5) eye) = - 0.45 * real_of_int DISPLAY_SIZE"
  by (simp add: update_tracking_def Let_def)

text \<open>
  C10. \<open>update_tracking\<close> changes \<open>eye_x\<close> and \<open>eye_y\<close> only: every other field of
  the eye, the old and new positions, the moving flag, the move timing, the saccade
  interval, the last saccade stop and all blink fields among them, keeps its value.
\<close>

theorem update_tracking_frame:
  "name (update_tracking tx ty eye) = name eye \<and>
   target_x (update_tracking tx ty eye) = target_x eye \<and>
   target_y (update_tracking tx ty eye) = target_y eye \<and>
   in_motion (update_tracking tx ty eye) = in_motion eye \<and>
   move_start_time (update_tracking tx ty eye) = move_start_time eye \<and>
   move_duration (update_tracking tx ty eye) = move_duration eye \<and>
   old_x (update_tracking tx ty eye) = old_x eye \<and>
   old_y (update_tracking tx ty eye) = old_y eye \<and>
   new_x (update_tracking tx ty eye) = new_x eye \<and>
   new_y (update_tracking tx ty eye) = new_y eye \<and>
   blink_state (update_tracking tx ty eye) = blink_state eye \<and>
   blink_start_time (update_tracking tx ty eye) = blink_start_time eye \<and>
   blink_duration (update_tracking tx ty eye) = blink_duration eye \<and>
   blink_factor (update_tracking tx ty eye) = blink_factor eye \<and>
   pupil_factor (update_tracking tx ty eye) = pupil_factor eye \<and>
   upper_lid_factor (update_tracking tx ty eye) = upper_lid_factor eye \<and>
   lower_lid_factor (update_tracking tx ty eye) = lower_lid_factor eye \<and>
   last_saccade_stop (update_tracking tx ty eye) = last_saccade_stop eye \<and>
   saccade_interval (update_tracking tx ty eye) = saccade_interval eye"
  by (simp add: update_tracking_def Let_def)

subsection \<open>Blinking\<close>

text \<open>
  C2. An open eye whose blink starts at time 0 with duration 50000, updated at the
  times 25000, 50000, 100000 and 150000: the blink factor is 0.5 at 25000; at 50000
  the state goes from closing to opening, the duration doubles to 100000 and the factor
  is 1; the factor is 0.5 at 100000 and 0 at 150000, where the state is open again.
  None of the four updates raises.
\<close>

theorem blink_scenario:
  assumes "blink_state eye = NOBLINK"
  shows "\<exists>e1 e2 e3 e4.
    update_blink 25000 (start_blink 0 50000 eye) = Inr e1 \<and>
      blink_factor e1 = 0.5 \<and> blink_state e1 = ENBLINK \<and>
    update_blink 50000 e1 = Inr e2 \<and>
      blink_state e2 = DEBLINK \<and> blink_duration e2 = 100000 \<and> blink_factor e2 = 1 \<and>
    update_blink 100000 e2 = Inr e3 \<and>
      blink_factor e3 = 0.5 \<and> blink_state e3 = DEBLINK \<and>
    update_blink 150000 e3 = Inr e4 \<and>
      blink_factor e4 = 0 \<and> blink_state e4 = NOBLINK"
  using assms by (simp add: update_blink_def start_blink_def truediv_def Let_def)

theorem blink_scenario_witness:
  "blink_state (Eye_init ''left'' 0) = NOBLINK \<and>
   (\<exists>e1 e2 e3 e4.
    update_blink 25000 (start_blink 0 50000 (Eye_init ''left'' 0)) = Inr e1 \<and>
      blink_factor e1 = 0.5 \<and> blink_state e1 = ENBLINK \<and>
    update_blink 50000 e1 = Inr e2 \<and>
      blink_state e2 = DEBLINK \<and> blink_duration e2 = 100000 \<and> blink_factor e2 = 1 \<and>
    update_blink 100000 e2 = Inr e3 \<and>
      blink_factor e3 = 0.5 \<and> blink_state e3 = DEBLINK \<and>
    update_blink 150000 e3 = Inr e4 \<and>
      blink_factor e4 = 0 \<and> blink_state e4 = NOBLINK)"
proof -
  have h: "blink_state (Eye_init ''left'' 0) = NOBLINK" by (simp add: Eye_init_def)
  show ?thesis using h blink_scenario [OF h] by simp
qed

subsection \<open>Autonomous motion\<close>

text \<open>
  C4. A moving eye updated at a time with \<open>now - start_time \<ge> duration\<close> completes
  the move: the position and \<open>old\<close> become \<open>new\<close> and the eye stops moving; the hold
  duration is the draw \<open>randint 35000 (min 1000000 GAZE_MAX)\<close> and lies in that range;
  when no saccade interval is pending (the field is 0), the interval is the draw
  \<open>randint hold GAZE_MAX\<close>, lies in that range, and the time of the call is recorded
  as the last saccade stop; when one is pending, both fields keep their values. The
  call does not raise.
\<close>

theorem move_completion:
  assumes "in_motion eye"
    and "current_time_us - move_start_time eye \<ge> move_duration eye"
  shows "\<exists>hold g1 eye' g'.
     randint 35000 (min 1000000 GAZE_MAX) g = Inr (hold, g1) \<and>
     35000 \<le> hold \<and> hold \<le> min 1000000 GAZE_MAX \<and>
     update_autonomous current_time_us eye g = Inr (eye', g') \<and>
     eye_x eye' = new_x eye \<and> eye_y eye' = new_y eye \<and>
     old_x eye' = new_x eye \<and> old_y eye' = new_y eye \<and>
     new_x eye' = new_x eye \<and> new_y eye' = new_y eye \<and>
     \<not> in_motion eye' \<and>
     move_duration eye' = hold \<and> move_start_time eye' = current_time_us \<and>
     (if saccade_interval eye = 0 then
        \<exists>i. randint hold GAZE_MAX g1 = Inr (i, g') \<and> hold \<le> i \<and> i \<le> GAZE_MAX \<and>
            saccade_interval eye' = i \<and>
            last_saccade_stop eye' = real_of_int current_time_us
      else
        g' = g1 \<and> saccade_interval eye' = saccade_interval eye \<and>
        last_saccade_stop eye' = last_saccade_stop eye)"
proof -
  from randint_range [of 35000 "min 1000000 GAZE_MAX" g] hold_limit
  obtain hold where h: "randint 35000 (min 1000000 GAZE_MAX) g = Inr (hold, rng_next g)"
    "35000 \<le> hold" "hold \<le> min 1000000 GAZE_MAX" by auto
  have hg: "hold \<le> GAZE_MAX" using h(3) hold_limit by linarith
  show ?thesis
  proof (cases "saccade_interval eye = 0")
    case True
    from randint_range [OF hg, of "rng_next g"]
    obtain i where i: "randint hold GAZE_MAX (rng_next g) = Inr (i, rng_next (rng_next g))"
      "hold \<le> i" "i \<le> GAZE_MAX" by auto
    show ?thesis using assms h i True
      by (simp add: update_autonomous_def Let_def)
  next
    case False
    show ?thesis using assms h False
      by (simp add: update_autonomous_def Let_def)
  qed
qed

theorem move_completion_witness:
  "in_motion fixture_moving_eye \<and>
   101000 - move_start_time fixture_moving_eye \<ge> move_duration fixture_moving_eye \<and>
   saccade_interval fixture_moving_eye = 0 \<and>
   (\<exists>eye' g'. update_autonomous 101000 fixture_moving_eye (\<lambda>_. 0) = Inr (eye', g') \<and>
      eye_x eye' = 108 \<and> eye_y eye' = 144 \<and> old_x eye' = 108 \<and> old_y eye' = 144 \<and>
      \<not> in_motion eye' \<and> move_duration eye' = 35000 \<and> move_start_time eye' = 101000 \<and>
      saccade_interval eye' = 35000 \<and> last_saccade_stop eye' = 101000)"
proof -
  have h1: "in_motion fixture_moving_eye"
    by (simp add: fixture_moving_eye_def)
  have h2: "101000 - move_start_time fixture_moving_eye \<ge> move_duration fixture_moving_eye"
    by (simp add: fixture_moving_eye_def)
  have h3: "saccade_interval fixture_moving_eye = 0"
    by (simp add: fixture_moving_eye_def Eye_init_def)
  have r1: "randint 35000 (min 1000000 GAZE_MAX) (\<lambda>_. 0) = Inr (35000, \<lambda>_. 0)"
    by (simp add: randint_def rng_next_def GAZE_MAX_def)
  have r2: "randint 35000 GAZE_MAX (\<lambda>_. 0) = Inr (35000, \<lambda>_. 0)"
    by (simp add: randint_def rng_next_def GAZE_MAX_def)
  from move_completion [OF h1 h2, of "\<lambda>_. 0"] h3 r1 r2
  have "\<exists>eye' g'. update_autonomous 101000 fixture_moving_eye (\<lambda>_. 0) = Inr (eye', g') \<and>
      eye_x eye' = new_x fixture_moving_eye \<and> eye_y eye' = new_y fixture_moving_eye \<and>
      old_x eye' = new_x fixture_moving_eye \<and> old_y eye' = new_y fixture_moving_eye \<and>
      \<not> in_motion eye' \<and> move_duration eye' = 35000 \<and> move_start_time eye' = 101000 \<and>
      saccade_interval eye' = 35000 \<and> last_saccade_stop eye' = 101000"
    by auto
  then show ?thesis using h1 h2 h3 by (simp add: fixture_moving_eye_def)
qed

text \<open>
  C6. A moving eye updated at a time with \<open>0 \<le> now - start_time < duration\<close> is
  rendered at \<open>old + (new - old) * e'\<close>, where \<open>e = (now - start_time) / duration\<close> and
  \<open>e' = 3e\<^sup>2 - 2e\<^sup>3\<close>; the call does not raise and consumes no random draw.
\<close>

theorem eased_interpolation:
  assumes "in_motion eye"
    and "0 \<le> current_time_us - move_start_time eye"
    and "current_time_us - move_start_time eye < move_duration eye"
  shows "\<exists>eye'. update_autonomous current_time_us eye g = Inr (eye', g) \<and>
     (let e = real_of_int (current_time_us - move_start_time eye) / real_of_int (move_duration eye);
          e' = 3 * e ^ 2 - 2 * e ^ 3
      in eye_x eye' = old_x eye + (new_x eye - old_x eye) * e' \<and>
         eye_y eye' = old_y eye + (new_y eye - old_y eye) * e')"
proof -
  define e where "e = real_of_int (current_time_us - move_start_time eye) / real_of_int (move_duration eye)"
  have nz: "move_duration eye \<noteq> 0" using assms(2,3) by linarith
  have td: "truediv (current_time_us - move_start_time eye) (move_duration eye) = Inr e"
    using nz by (simp add: truediv_def e_def)
  have ease: "3 * e * e - 2 * e * e * e = 3 * e ^ 2 - 2 * e ^ 3"
    by (simp add: power2_eq_square power3_eq_cube)
  have run: "update_autonomous current_time_us eye g =
      Inr (eye\<lparr>eye_x := old_x eye + (new_x eye - old_x eye) * (3 * e * e - 2 * e * e * e),
               eye_y := old_y eye + (new_y eye - old_y eye) * (3 * e * e - 2 * e * e * e)\<rparr>, g)"
    using assms(1,3) td by (simp add: update_autonomous_def Let_def)
  show ?thesis
    unfolding run Let_def e_def [symmetric] ease by simp
qed

theorem eased_interpolation_witness:
  "in_motion fixture_moving_eye \<and>
   0 \<le> 51000 - move_start_time fixture_moving_eye \<and>
   51000 - move_start_time fixture_moving_eye < move_duration fixture_moving_eye \<and>
   (\<exists>eye'. update_autonomous 51000 fixture_moving_eye (\<lambda>_. 0) = Inr (eye', \<lambda>_. 0) \<and>
      eye_x eye' = 54 \<and> eye_y eye' = 72)"
proof -
  have h1: "in_motion fixture_moving_eye"
    by (simp add: fixture_moving_eye_def)
  have h2: "0 \<le> 51000 - move_start_time fixture_moving_eye"
    by (simp add: fixture_moving_eye_def)
  have h3: "51000 - move_start_time fixture_moving_eye < move_duration fixture_moving_eye"
    by (simp add: fixture_moving_eye_def)
  from eased_interpolation [OF h1 h2 h3, of "\<lambda>_. 0"]
  have "\<exists>eye'. update_autonomous 51000 fixture_moving_eye (\<lambda>_. 0) = Inr (eye', \<lambda>_. 0) \<and>
      eye_x eye' = 54 \<and> eye_y eye' = 72"
    by (simp add: fixture_moving_eye_def Eye_init_def Let_def power2_eq_square power3_eq_cube)
  then show ?thesis using h1 h2 h3 by simp
qed

subsection \<open>Mode changes\<close>

text \<open>
  C9, as stated: a mode outside the three valid values is rejected without changing the
  controller, and the caller sees the rejection through the value that \<open>set_mode\<close>
  returns. The second part fails: \<open>set_mode\<close> returns \<^verbatim>\<open>None\<close> for the invalid
  mode \<open>bogus\<close> and for the valid mode \<open>rest\<close> alike.
\<close>

theorem set_mode_return_counterexample:
  "''bogus'' \<notin> set (map snd EYE_MODES) \<and> ''rest'' \<in> set (map snd EYE_MODES) \<and>
   fst (set_mode ''bogus'' fixture_controller) = PyNone \<and>
   fst (set_mode ''bogus'' fixture_controller) = fst (set_mode ''rest'' fixture_controller)"
  by (simp add: set_mode_def EYE_MODES_def MODE_TRACKING_def MODE_WANDERING_def MODE_REST_def)

text \<open>
  C9, as amended: the valid modes are \<open>tracking\<close>, \<open>wandering\<close> and \<open>rest\<close>. For any
  other value \<open>set_mode\<close> leaves the whole controller unchanged, returns
  \<^verbatim>\<open>None\<close> and prints \<^verbatim>\<open>Invalid mode: \<close> followed by the value; the printed line
  is the only trace of the rejection. For a valid value it sets the mode to that value,
  leaves the other fields alone, returns \<^verbatim>\<open>None\<close> and prints
  \<^verbatim>\<open>Eye mode changed to: \<close> followed by the value.
\<close>

theorem set_mode_amended:
  "set (map snd EYE_MODES) = {MODE_TRACKING, MODE_WANDERING, MODE_REST} \<and>
   (m \<notin> set (map snd EYE_MODES) \<longrightarrow>
      snd (snd (set_mode m c)) = c \<and>
      fst (set_mode m c) = PyNone \<and>
      fst (snd (set_mode m c)) = ''Invalid mode: '' @ m) \<and>
   (m \<in> set (map snd EYE_MODES) \<longrightarrow>
      mode (snd (snd (set_mode m c))) = m \<and>
      eyes (snd (snd (set_mode m c))) = eyes c \<and>
      last_blink_time (snd (snd (set_mode m c))) = last_blink_time c \<and>
      next_blink_time (snd (snd (set_mode m c))) = next_blink_time c \<and>
      fst (set_mode m c) = PyNone \<and>
      fst (snd (set_mode m c)) = ''Eye mode changed to: '' @ m)"
  by (auto simp: set_mode_def EYE_MODES_def)

theorem set_mode_amended_witness:
  "''bogus'' \<notin> set (map snd EYE_MODES) \<and>
   snd (snd (set_mode ''bogus'' fixture_controller)) = fixture_controller \<and>
   fst (snd (set_mode ''bogus'' fixture_controller)) = ''Invalid mode: bogus'' \<and>
   ''rest'' \<in> set (map snd EYE_MODES) \<and>
   mode (snd (snd (set_mode ''rest'' fixture_controller))) = ''rest'' \<and>
   fst (snd (set_mode ''rest'' fixture_controller)) = ''Eye mode changed to: rest''"
  using set_mode_amended [of "''bogus''" fixture_controller]
        set_mode_amended [of "''rest''" fixture_controller]
  by (simp add: EYE_MODES_def MODE_TRACKING_def MODE_WANDERING_def MODE_REST_def)

subsection \<open>Saccade targets\<close>

text \<open>
  The sampling shared by both kinds of saccade: \<open>x\<close> drawn in \<open>[-r, r]\<close>, then \<open>y\<close>
  drawn in \<open>[-h, h]\<close> with \<open>h = sqrt (r\<^sup>2 - x\<^sup>2)\<close>. The square root never raises and
  the point lies in the disc of radius \<open>r\<close>.
\<close>

lemma disc_draw:
  assumes "0 \<le> r"
  shows "\<exists>x y h. uniform (- r) r g = (x, rng_next g) \<and>
           math_sqrt (r * r - x * x) = Inr h \<and>
           uniform (- h) h (rng_next g) = (y, rng_next (rng_next g)) \<and>
           dist2 x y \<le> r"
proof -
  obtain x g1 where ux: "uniform (- r) r g = (x, g1)" by (cases "uniform (- r) r g")
  with uniform_range [of "- r" r g] assms
  have x: "- r \<le> x" "x \<le> r" "g1 = rng_next g" by simp_all
  have "\<bar>x\<bar> \<le> r" using x by simp
  then have "\<bar>x\<bar> * \<bar>x\<bar> \<le> r * r" by (intro mult_mono) simp_all
  then have nn: "0 \<le> r * r - x * x" by simp
  define h where "h = sqrt (r * r - x * x)"
  have h0: "0 \<le> h" using nn by (simp add: h_def)
  have sq: "math_sqrt (r * r - x * x) = Inr h" using nn by (simp add: math_sqrt_def h_def)
  obtain y g2 where uy: "uniform (- h) h (rng_next g) = (y, g2)"
    by (cases "uniform (- h) h (rng_next g)")
  with uniform_range [of "- h" h "rng_next g"] h0
  have y: "- h \<le> y" "y \<le> h" "g2 = rng_next (rng_next g)" by simp_all
  have "dist2 x y \<le> r" using assms x y by (intro in_disc) (simp_all add: h_def)
  then show ?thesis using ux x(3) sq uy y(3) by simp
qed

text \<open>
  C5. An idle eye whose hold has elapsed starts a move, and the call does not raise.
  When the time since the last saccade stop exceeds the saccade interval the move is a
  major saccade and its target satisfies \<open>|new| \<le> 0.75 * DISPLAY_SIZE\<close>; otherwise it is
  a microsaccade and \<open>|new - old| \<le> 0.07 * DISPLAY_SIZE\<close>. These are the only two places
  where a position is drawn.
\<close>

theorem saccade_bounded:
  assumes "\<not> in_motion eye"
    and "current_time_us - move_start_time eye > move_duration eye"
  shows "\<exists>eye' g'. update_autonomous current_time_us eye g = Inr (eye', g') \<and>
     in_motion eye' \<and> old_x eye' = old_x eye \<and> old_y eye' = old_y eye \<and>
     (if real_of_int current_time_us - last_saccade_stop eye > real_of_int (saccade_interval eye)
      then dist2 (new_x eye') (new_y eye') \<le> 0.75 * real_of_int DISPLAY_SIZE
      else dist2 (new_x eye' - old_x eye') (new_y eye' - old_y eye')
             \<le> 0.07 * real_of_int DISPLAY_SIZE)"
proof (cases "real_of_int current_time_us - last_saccade_stop eye > real_of_int (saccade_interval eye)")
  case True
  define r where "r = real_of_int DISPLAY_SIZE * 0.75"
  have "0 \<le> r" by (simp add: r_def DISPLAY_SIZE_def)
  from disc_draw [OF this, of g]
  obtain x y h where d: "uniform (- r) r g = (x, rng_next g)"
      "math_sqrt (r * r - x * x) = Inr h"
      "uniform (- h) h (rng_next g) = (y, rng_next (rng_next g))"
      "dist2 x y \<le> r" by blast
  from randint_range [of SACCADE_MIN_DURATION SACCADE_MAX_DURATION "rng_next (rng_next g)"]
  obtain n where n: "randint SACCADE_MIN_DURATION SACCADE_MAX_DURATION (rng_next (rng_next g))
      = Inr (n, rng_next (rng_next (rng_next g)))"
    by (auto simp: SACCADE_MIN_DURATION_def SACCADE_MAX_DURATION_def)
  have run: "update_autonomous current_time_us eye g =
      Inr (eye\<lparr>eye_x := old_x eye, eye_y := old_y eye, new_x := x, new_y := y,
               move_duration := n, saccade_interval := 0,
               move_start_time := current_time_us, in_motion := True\<rparr>,
           rng_next (rng_next (rng_next g)))"
    using assms True d(1-3) n
    unfolding update_autonomous_def Let_def r_def by simp
  show ?thesis unfolding run using True d(4) by (simp add: r_def)
next
  case False
  define r where "r = real_of_int DISPLAY_SIZE * 0.07"
  have "0 \<le> r" by (simp add: r_def DISPLAY_SIZE_def)
  from disc_draw [OF this, of g]
  obtain x y h where d: "uniform (- r) r g = (x, rng_next g)"
      "math_sqrt (r * r - x * x) = Inr h"
      "uniform (- h) h (rng_next g) = (y, rng_next (rng_next g))"
      "dist2 x y \<le> r" by blast
  from randint_range [of MICROSACCADE_MIN_DURATION MICROSACCADE_MAX_DURATION "rng_next (rng_next g)"]
  obtain n where n: "randint MICROSACCADE_MIN_DURATION MICROSACCADE_MAX_DURATION (rng_next (rng_next g))
      = Inr (n, rng_next (rng_next (rng_next g)))"
    by (auto simp: MICROSACCADE_MIN_DURATION_def MICROSACCADE_MAX_DURATION_def)
  have run: "update_autonomous current_time_us eye g =
      Inr (eye\<lparr>eye_x := old_x eye, eye_y := old_y eye,
               new_x := old_x eye + x, new_y := old_y eye + y,
               move_duration := n,
               move_start_time := current_time_us, in_motion := True\<rparr>,
           rng_next (rng_next (rng_next g)))"
    using assms False d(1-3) n
    unfolding update_autonomous_def Let_def r_def by simp
  show ?thesis unfolding run using False d(4) by (simp add: r_def)
qed

theorem saccade_bounded_witness:
  "\<not> in_motion (Eye_init ''left'' 0) \<and>
   1 - move_start_time (Eye_init ''left'' 0) > move_duration (Eye_init ''left'' 0) \<and>
   real_of_int 1 - last_saccade_stop (Eye_init ''left'' 0)
      > real_of_int (saccade_interval (Eye_init ''left'' 0)) \<and>
   (\<exists>eye' g'. update_autonomous 1 (Eye_init ''left'' 0) (\<lambda>_. 0) = Inr (eye', g') \<and>
      in_motion eye' \<and>
      dist2 (new_x eye') (new_y eye') \<le> 0.75 * real_of_int DISPLAY_SIZE) \<and>
   \<not> in_motion ((Eye_init ''left'' 0)\<lparr>saccade_interval := 1000000\<rparr>) \<and>
   \<not> real_of_int 1 - last_saccade_stop ((Eye_init ''left'' 0)\<lparr>saccade_interval := 1000000\<rparr>)
      > real_of_int (saccade_interval ((Eye_init ''left'' 0)\<lparr>saccade_interval := 1000000\<rparr>)) \<and>
   (\<exists>eye' g'. update_autonomous 1 ((Eye_init ''left'' 0)\<lparr>saccade_interval := 1000000\<rparr>) (\<lambda>_. 0)
        = Inr (eye', g') \<and>
      in_motion eye' \<and>
      dist2 (new_x eye' - old_x eye') (new_y eye' - old_y eye') \<le> 0.07 * real_of_int DISPLAY_SIZE)"
proof -
  let ?e = "Eye_init ''left'' 0"
  let ?f = "(Eye_init ''left'' 0)\<lparr>saccade_interval := 1000000\<rparr>"
  have h1: "\<not> in_motion ?e" by (simp add: Eye_init_def)
  have h2: "1 - move_start_time ?e > move_duration ?e" by (simp add: Eye_init_def)
  have h3: "real_of_int 1 - last_saccade_stop ?e > real_of_int (saccade_interval ?e)"
    by (simp add: Eye_init_def)
  have k1: "\<not> in_motion ?f" by (simp add: Eye_init_def)
  have k2: "1 - move_start_time ?f > move_duration ?f" by (simp add: Eye_init_def)
  have k3: "\<not> real_of_int 1 - last_saccade_stop ?f > real_of_int (saccade_interval ?f)"
    by (simp add: Eye_init_def)
  from saccade_bounded [OF h1 h2, of "\<lambda>_. 0"] h3
  have a: "\<exists>eye' g'. update_autonomous 1 ?e (\<lambda>_. 0) = Inr (eye', g') \<and> in_motion eye' \<and>
      dist2 (new_x eye') (new_y eye') \<le> 0.75 * real_of_int DISPLAY_SIZE"
    by auto
  from saccade_bounded [OF k1 k2, of "\<lambda>_. 0"] k3
  have b: "\<exists>eye' g'. update_autonomous 1 ?f (\<lambda>_. 0) = Inr (eye', g') \<and> in_motion eye' \<and>
      dist2 (new_x eye' - old_x eye') (new_y eye' - old_y eye') \<le> 0.07 * real_of_int DISPLAY_SIZE"
    by auto
  show ?thesis using h1 h2 h3 k1 k3 a b by blast
qed

lemma saccade_example:
  "\<exists>eye'. update_autonomous 1 (Eye_init ''left'' 0) (\<lambda>_. 0) = Inr (eye', \<lambda>_. 0) \<and>
      in_motion eye' \<and> new_x eye' = - 180 \<and> new_y eye' = 0 \<and> move_duration eye' = 83000"
  by (simp add: update_autonomous_def Eye_init_def Let_def uniform_def random_unit_def
      rng_next_def math_sqrt_def randint_def DISPLAY_SIZE_def SACCADE_MIN_DURATION_def
      SACCADE_MAX_DURATION_def)

subsection \<open>The rendered position of an idle eye\<close>

text \<open>
  C3, as stated: the invariant \<open>settled_at_old\<close> (an eye that is not moving is rendered
  at \<open>old\<close>) is preserved by every operation of the eye, \<open>update_tracking\<close> among them.
  It is not: the freshly constructed eye satisfies it, and after
  \<open>update_tracking 0.5 (-0.5)\<close> the eye is still not moving and is rendered at
  \<open>(108, -108)\<close> while \<open>old\<close> is still the origin.
\<close>

theorem update_tracking_breaks_settled_counterexample:
  "settled_at_old (Eye_init ''middle'' 0) \<and>
   \<not> settled_at_old (update_tracking 0.5 (- 0.5) (Eye_init ''middle'' 0))"
  by (simp add: settled_at_old_def update_tracking_def Eye_init_def Let_def DISPLAY_SIZE_def)

lemma update_autonomous_settles:
  assumes "update_autonomous current_time_us eye g = Inr (eye', g')"
  shows "settled_at_old eye'"
  using assms
  by (auto simp: update_autonomous_def Let_def settled_at_old_def
      split: if_splits sum.splits prod.splits)

text \<open>
  C3, as amended: a freshly constructed eye satisfies the invariant; every
  \<open>update_autonomous\<close> call that returns establishes it, from any state; \<open>start_blink\<close>,
  \<open>update_blink\<close> and the Rest override of \<open>blink_factor\<close> preserve it. After
  \<open>update_tracking tx ty\<close> it holds exactly when the eye is moving or the scaled target
  \<open>(tx, ty) * 0.9 * DISPLAY_SIZE\<close> is \<open>old\<close>: tracking writes the rendered position and
  leaves \<open>old\<close> and the moving flag alone.
\<close>

theorem settled_at_old_operations:
  "settled_at_old (Eye_init nm t) \<and>
   (update_autonomous current_time_us eye g = Inr (eye1, g1) \<longrightarrow> settled_at_old eye1) \<and>
   (settled_at_old eye \<longrightarrow> settled_at_old (start_blink current_time_us duration eye)) \<and>
   (settled_at_old eye \<longrightarrow> update_blink current_time_us eye = Inr eye2 \<longrightarrow> settled_at_old eye2) \<and>
   (settled_at_old eye \<longrightarrow> settled_at_old (eye\<lparr>blink_factor := 1\<rparr>)) \<and>
   (settled_at_old (update_tracking tx ty eye) \<longleftrightarrow>
      in_motion eye \<or>
      (tx * (real_of_int DISPLAY_SIZE * 0.9) = old_x eye \<and>
       ty * (real_of_int DISPLAY_SIZE * 0.9) = old_y eye))"
proof -
  have a: "settled_at_old (Eye_init nm t)"
    by (simp add: settled_at_old_def Eye_init_def)
  have b: "update_autonomous current_time_us eye g = Inr (eye1, g1) \<longrightarrow> settled_at_old eye1"
    using update_autonomous_settles by blast
  have c: "settled_at_old eye \<longrightarrow> settled_at_old (start_blink current_time_us duration eye)"
    by (simp add: settled_at_old_def start_blink_def)
  have d: "settled_at_old eye \<longrightarrow> update_blink current_time_us eye = Inr eye2 \<longrightarrow> settled_at_old eye2"
    by (auto simp: settled_at_old_def update_blink_def Let_def split: if_splits sum.splits)
  have e: "settled_at_old eye \<longrightarrow> settled_at_old (eye\<lparr>blink_factor := 1\<rparr>)"
    by (simp add: settled_at_old_def)
  have f: "settled_at_old (update_tracking tx ty eye) \<longleftrightarrow>
      in_motion eye \<or>
      (tx * (real_of_int DISPLAY_SIZE * 0.9) = old_x eye \<and>
       ty * (real_of_int DISPLAY_SIZE * 0.9) = old_y eye)"
    by (auto simp: settled_at_old_def update_tracking_def Let_def)
  show ?thesis using a b c d e f by blast
qed

theorem settled_at_old_operations_witness:
  "update_autonomous 0 (update_tracking 0.5 (- 0.5) (Eye_init ''middle'' 0)) (\<lambda>_. 0)
     = Inr ((Eye_init ''middle'' 0)\<lparr>eye_x := 0, eye_y := 0\<rparr>, \<lambda>_. 0) \<and>
   settled_at_old ((Eye_init ''middle'' 0)\<lparr>eye_x := 0, eye_y := 0\<rparr>) \<and>
   settled_at_old (Eye_init ''middle'' 0) \<and>
   settled_at_old (start_blink 0 50000 (Eye_init ''middle'' 0)) \<and>
   update_blink 25000 (start_blink 0 50000 (Eye_init ''middle'' 0))
     = Inr ((start_blink 0 50000 (Eye_init ''middle'' 0))\<lparr>blink_factor := 0.5\<rparr>) \<and>
   settled_at_old ((start_blink 0 50000 (Eye_init ''middle'' 0))\<lparr>blink_factor := 0.5\<rparr>) \<and>
   settled_at_old ((Eye_init ''middle'' 0)\<lparr>blink_factor := 1\<rparr>)"
proof -
  let ?e = "Eye_init ''middle'' 0"
  have r: "update_autonomous 0 (update_tracking 0.5 (- 0.5) ?e) (\<lambda>_. 0)
      = Inr (?e\<lparr>eye_x := 0, eye_y := 0\<rparr>, \<lambda>_. 0)"
    by (simp add: update_autonomous_def update_tracking_def Eye_init_def Let_def)
  have i: "settled_at_old ?e"
    using settled_at_old_operations [where nm = "''middle''" and t = 0] by blast
  have u: "update_blink 25000 (start_blink 0 50000 ?e)
      = Inr ((start_blink 0 50000 ?e)\<lparr>blink_factor := 0.5\<rparr>)"
    by (simp add: update_blink_def start_blink_def Eye_init_def truediv_def Let_def)
  have sb: "settled_at_old (start_blink 0 50000 ?e)"
    using i settled_at_old_operations [where eye = ?e and current_time_us = 0 and duration = 50000]
    by blast
  have ua: "settled_at_old (?e\<lparr>eye_x := 0, eye_y := 0\<rparr>)"
    using r settled_at_old_operations [where current_time_us = 0
         and eye = "update_tracking 0.5 (- 0.5) ?e" and g = "\<lambda>_. 0"
         and ?eye1.0 = "?e\<lparr>eye_x := 0, eye_y := 0\<rparr>" and ?g1.0 = "\<lambda>_. 0"]
    by blast
  have ub: "settled_at_old ((start_blink 0 50000 ?e)\<lparr>blink_factor := 0.5\<rparr>)"
    using u sb settled_at_old_operations [where current_time_us = 25000
         and eye = "start_blink 0 50000 ?e"
         and ?eye2.0 = "(start_blink 0 50000 ?e)\<lparr>blink_factor := 0.5\<rparr>"]
    by blast
  have ro: "settled_at_old (?e\<lparr>blink_factor := 1\<rparr>)"
    using i settled_at_old_operations [where eye = ?e] by blast
  show ?thesis using r ua i sb u ub ro by blast
qed

subsection \<open>The blink scheduler\<close>

lemma dispatch_mode_schedule:
  "dispatch_mode current_time_us face_position c g = Inr (c', g') \<Longrightarrow>
     next_blink_time c' = next_blink_time c \<and> last_blink_time c' = last_blink_time c \<and>
     mode c' = mode c"
  by (auto simp: dispatch_mode_def split: if_splits sum.splits option.splits prod.splits)

lemma update_schedule:
  assumes "schedule_blink current_time_us c g = Inr (c1, g1)"
    and "update current_time_us face_position c g = Inr (c', g')"
  shows "next_blink_time c' = next_blink_time c1"
  using assms dispatch_mode_schedule [of current_time_us face_position _ g1 c' g']
  by (auto simp: update_def split: sum.splits)

lemma blink_ranges:
  "BLINK_MIN_DURATION \<le> BLINK_MAX_DURATION \<and> BLINK_INTERVAL_MIN \<le> BLINK_INTERVAL_MIN * 2"
  by (simp add: BLINK_MIN_DURATION_def BLINK_MAX_DURATION_def BLINK_INTERVAL_MIN_def)

text \<open>
  C7. On a tick with \<open>now \<ge> next_blink_time\<close> the scheduler draws one duration with
  \<open>randint BLINK_MIN_DURATION BLINK_MAX_DURATION\<close>, calls \<open>start_blink now duration\<close> on
  every eye of the dict (an eye that is not open is returned unchanged, an open eye starts
  closing at \<open>now\<close> with that duration), draws an interval with
  \<open>randint BLINK_INTERVAL_MIN (BLINK_INTERVAL_MIN * 2)\<close> and sets the next blink time to
  \<open>now + duration * 3 + interval\<close>; the rest of the tick leaves the next blink time at
  that value. Both draws lie in their ranges and neither raises.
\<close>

theorem synchronized_blink:
  assumes "real_of_int current_time_us \<ge> next_blink_time c"
  shows "\<exists>duration g1 i g2 c1.
     randint BLINK_MIN_DURATION BLINK_MAX_DURATION g = Inr (duration, g1) \<and>
     BLINK_MIN_DURATION \<le> duration \<and> duration \<le> BLINK_MAX_DURATION \<and>
     randint BLINK_INTERVAL_MIN (BLINK_INTERVAL_MIN * 2) g1 = Inr (i, g2) \<and>
     BLINK_INTERVAL_MIN \<le> i \<and> i \<le> BLINK_INTERVAL_MIN * 2 \<and>
     schedule_blink current_time_us c g = Inr (c1, g2) \<and>
     eyes c1 = map (\<lambda>(k, eye). (k, start_blink current_time_us duration eye)) (eyes c) \<and>
     (\<forall>eye. blink_state eye \<noteq> NOBLINK \<longrightarrow> start_blink current_time_us duration eye = eye) \<and>
     (\<forall>eye. blink_state eye = NOBLINK \<longrightarrow>
        blink_timing (start_blink current_time_us duration eye)
          = (ENBLINK, current_time_us, duration)) \<and>
     next_blink_time c1 = real_of_int (current_time_us + duration * 3 + i) \<and>
     (\<forall>face_position c' g'.
        update current_time_us face_position c g = Inr (c', g') \<longrightarrow>
        next_blink_time c' = real_of_int (current_time_us + duration * 3 + i))"
proof -
  from randint_range [of BLINK_MIN_DURATION BLINK_MAX_DURATION g] blink_ranges
  obtain duration where d:
    "randint BLINK_MIN_DURATION BLINK_MAX_DURATION g = Inr (duration, rng_next g)"
    "BLINK_MIN_DURATION \<le> duration" "duration \<le> BLINK_MAX_DURATION" by blast
  from randint_range [of BLINK_INTERVAL_MIN "BLINK_INTERVAL_MIN * 2" "rng_next g"] blink_ranges
  obtain i where i:
    "randint BLINK_INTERVAL_MIN (BLINK_INTERVAL_MIN * 2) (rng_next g) = Inr (i, rng_next (rng_next g))"
    "BLINK_INTERVAL_MIN \<le> i" "i \<le> BLINK_INTERVAL_MIN * 2" by blast
  define c1 where "c1 = c\<lparr>eyes := map (\<lambda>(k, eye). (k, start_blink current_time_us duration eye)) (eyes c),
      last_blink_time := real_of_int current_time_us,
      next_blink_time := real_of_int (current_time_us + duration * 3 + i)\<rparr>"
  have run: "schedule_blink current_time_us c g = Inr (c1, rng_next (rng_next g))"
    using assms d(1) i(1) by (simp add: schedule_blink_def Let_def c1_def)
  have e: "eyes c1 = map (\<lambda>(k, eye). (k, start_blink current_time_us duration eye)) (eyes c)"
    by (simp add: c1_def)
  have n: "next_blink_time c1 = real_of_int (current_time_us + duration * 3 + i)"
    by (simp add: c1_def)
  have busy: "\<forall>eye. blink_state eye \<noteq> NOBLINK \<longrightarrow> start_blink current_time_us duration eye = eye"
    by (simp add: start_blink_def)
  have idle: "\<forall>eye. blink_state eye = NOBLINK \<longrightarrow>
        blink_timing (start_blink current_time_us duration eye) = (ENBLINK, current_time_us, duration)"
    by (simp add: start_blink_def blink_timing_def)
  have u: "\<forall>face_position c' g'.
        update current_time_us face_position c g = Inr (c', g') \<longrightarrow>
        next_blink_time c' = real_of_int (current_time_us + duration * 3 + i)"
    using update_schedule [OF run] n by simp
  show ?thesis using d i run e n busy idle u by blast
qed

theorem synchronized_blink_witness:
  "real_of_int 4000000 \<ge> next_blink_time fixture_controller \<and>
   (\<exists>c1 g2. schedule_blink 4000000 fixture_controller (\<lambda>_. 0) = Inr (c1, g2) \<and>
      eyes c1 = map (\<lambda>(k, eye). (k, start_blink 4000000 36000 eye)) (eyes fixture_controller) \<and>
      next_blink_time c1 = 8108000)"
proof -
  have h: "real_of_int 4000000 \<ge> next_blink_time fixture_controller"
    by (simp add: fixture_controller_def)
  have r1: "randint BLINK_MIN_DURATION BLINK_MAX_DURATION (\<lambda>_. 0) = Inr (36000, \<lambda>_. 0)"
    by (simp add: randint_def rng_next_def BLINK_MIN_DURATION_def BLINK_MAX_DURATION_def)
  have r2: "randint BLINK_INTERVAL_MIN (BLINK_INTERVAL_MIN * 2) (\<lambda>_. 0) = Inr (4000000, \<lambda>_. 0)"
    by (simp add: randint_def rng_next_def BLINK_INTERVAL_MIN_def)
  from synchronized_blink [OF h, of "\<lambda>_. 0"] r1 r2
  have "\<exists>c1 g2. schedule_blink 4000000 fixture_controller (\<lambda>_. 0) = Inr (c1, g2) \<and>
      eyes c1 = map (\<lambda>(k, eye). (k, start_blink 4000000 36000 eye)) (eyes fixture_controller) \<and>
      next_blink_time c1 = 8108000"
    by auto
  then show ?thesis using h by blast
qed

subsection \<open>Rest mode\<close>

lemma start_blink_motion: "motion_state (start_blink current_time_us duration eye) = motion_state eye"
  by (simp add: start_blink_def motion_state_def)

lemma update_blink_motion:
  "update_blink current_time_us eye = Inr eye' \<Longrightarrow> motion_state eye' = motion_state eye"
  by (auto simp: update_blink_def motion_state_def Let_def split: if_splits sum.splits)

lemma update_blink_all_motion:
  "update_blink_all current_time_us d = Inr d' \<Longrightarrow> motion_states d' = motion_states d"
proof (induction d arbitrary: d')
  case Nil
  then show ?case by simp
next
  case (Cons a d)
  obtain k eye where a: "a = (k, eye)" by (cases a)
  from Cons.prems a obtain eye' rest' where
    s: "update_blink current_time_us eye = Inr eye'"
       "update_blink_all current_time_us d = Inr rest'"
       "d' = (k, eye') # rest'"
    by (auto split: sum.splits)
  from Cons.IH [OF s(2)] update_blink_motion [OF s(1)] s(3) a
  show ?case by (simp add: motion_states_def)
qed

lemma schedule_blink_frame:
  assumes "schedule_blink current_time_us c g = Inr (c', g')"
  shows "mode c' = mode c \<and> motion_states (eyes c') = motion_states (eyes c)"
proof -
  have "motion_states (map (\<lambda>(k, eye). (k, start_blink current_time_us n eye)) d) = motion_states d"
    for n d
    by (induction d) (auto simp: motion_states_def start_blink_motion)
  then show ?thesis using assms
    by (auto simp: schedule_blink_def Let_def split: if_splits sum.splits)
qed

lemma rest_override_frame:
  "motion_states (map (\<lambda>(k, eye). (k, eye\<lparr>blink_factor := 1\<rparr>)) d) = motion_states d \<and>
   blink_timings (map (\<lambda>(k, eye). (k, eye\<lparr>blink_factor := 1\<rparr>)) d) = blink_timings d \<and>
   (\<forall>eye \<in> set (eyes_values (map (\<lambda>(k, eye). (k, eye\<lparr>blink_factor := 1\<rparr>)) d)). blink_factor eye = 1)"
  by (induction d)
     (auto simp: motion_states_def blink_timings_def motion_state_def blink_timing_def
        eyes_values_def)

lemma dispatch_rest:
  assumes "mode c = MODE_REST"
  shows "dispatch_mode current_time_us face_position c g =
     Inr (c\<lparr>eyes := map (\<lambda>(k, eye). (k, eye\<lparr>blink_factor := 1\<rparr>)) (eyes c)\<rparr>, g)"
  using assms
  by (simp add: dispatch_mode_def MODE_REST_def MODE_TRACKING_def MODE_WANDERING_def)

lemma update_rest:
  assumes "mode c = MODE_REST"
    and "update current_time_us face_position c g = Inr (c', g')"
  shows "\<exists>c1 d. schedule_blink current_time_us c g = Inr (c1, g') \<and>
           update_blink_all current_time_us (eyes c1) = Inr d \<and>
           c' = c1\<lparr>eyes := map (\<lambda>(k, eye). (k, eye\<lparr>blink_factor := 1\<rparr>)) d\<rparr>"
proof -
  from assms(2) obtain c1 g1 d where
    s: "schedule_blink current_time_us c g = Inr (c1, g1)"
       "update_blink_all current_time_us (eyes c1) = Inr d"
       "dispatch_mode current_time_us face_position (c1\<lparr>eyes := d\<rparr>) g1 = Inr (c', g')"
    by (auto simp: update_def split: sum.splits)
  have "mode (c1\<lparr>eyes := d\<rparr>) = MODE_REST"
    using schedule_blink_frame [OF s(1)] assms(1) by simp
  from dispatch_rest [OF this, of current_time_us face_position g1] s(3)
  have "c' = c1\<lparr>eyes := map (\<lambda>(k, eye). (k, eye\<lparr>blink_factor := 1\<rparr>)) d\<rparr>" "g' = g1"
    by simp_all
  then show ?thesis using s(1,2) by simp
qed

lemma update_rest_frame:
  assumes "mode c = MODE_REST"
    and "update current_time_us face_position c g = Inr (c', g')"
  shows "mode c' = MODE_REST \<and> motion_states (eyes c') = motion_states (eyes c) \<and>
         (\<forall>eye \<in> set (eyes_values (eyes c')). blink_factor eye = 1)"
proof -
  from update_rest [OF assms] obtain c1 d where
    s: "schedule_blink current_time_us c g = Inr (c1, g')"
       "update_blink_all current_time_us (eyes c1) = Inr d"
       "c' = c1\<lparr>eyes := map (\<lambda>(k, eye). (k, eye\<lparr>blink_factor := 1\<rparr>)) d\<rparr>"
    by blast
  show ?thesis
    using schedule_blink_frame [OF s(1)] update_blink_all_motion [OF s(2)] s(3) assms(1)
      rest_override_frame [of d]
    by simp
qed

lemma run_ticks_rest_frame:
  "mode c = MODE_REST \<Longrightarrow> run_ticks ts c g = Inr (c', g') \<Longrightarrow>
     mode c' = MODE_REST \<and> motion_states (eyes c') = motion_states (eyes c) \<and>
     (ts \<noteq> [] \<longrightarrow> (\<forall>eye \<in> set (eyes_values (eyes c')). blink_factor eye = 1))"
proof (induction ts arbitrary: c g)
  case Nil
  then show ?case by simp
next
  case (Cons a ts)
  obtain now fp where a: "a = (now, fp)" by (cases a)
  from Cons.prems(2) a obtain c1 g1 where
    s: "update now fp c g = Inr (c1, g1)" "run_ticks ts c1 g1 = Inr (c', g')"
    by (auto split: sum.splits)
  note one = update_rest_frame [OF Cons.prems(1) s(1)]
  then have m1: "mode c1 = MODE_REST" by simp
  note rest = Cons.IH [OF m1 s(2)]
  show ?case
  proof (cases "ts = []")
    case True
    then have "c' = c1" using s(2) by simp
    then show ?thesis using one by simp
  next
    case False
    then show ?thesis using one rest by simp
  qed
qed

text \<open>On eyes that are \<open>blink_ready\<close> a Rest tick returns, and so does any run of them.\<close>

lemma update_blink_returns:
  assumes "blink_ready eye"
  shows "\<exists>eye'. update_blink current_time_us eye = Inr eye' \<and> blink_ready eye'"
  using assms
  by (auto simp: update_blink_def blink_ready_def truediv_def Let_def)

lemma start_blink_ready:
  assumes "0 < duration" and "blink_ready eye"
  shows "blink_ready (start_blink current_time_us duration eye)"
  using assms by (simp add: start_blink_def blink_ready_def)

lemma update_blink_all_returns:
  "all_blink_ready d \<Longrightarrow>
     \<exists>d'. update_blink_all current_time_us d = Inr d' \<and> all_blink_ready d'"
proof (induction d)
  case Nil
  then show ?case by (simp add: all_blink_ready_def eyes_values_def)
next
  case (Cons a d)
  obtain k eye where a: "a = (k, eye)" by (cases a)
  from Cons.prems a have r: "blink_ready eye" "all_blink_ready d"
    by (simp_all add: all_blink_ready_def eyes_values_def)
  from update_blink_returns [OF r(1), of current_time_us]
  obtain eye' where e: "update_blink current_time_us eye = Inr eye'" "blink_ready eye'" by blast
  from Cons.IH [OF r(2)]
  obtain d' where d: "update_blink_all current_time_us d = Inr d'" "all_blink_ready d'" by blast
  show ?case using a e d by (simp add: all_blink_ready_def eyes_values_def)
qed

lemma schedule_blink_returns:
  assumes "all_blink_ready (eyes c)"
  shows "\<exists>c1 g1. schedule_blink current_time_us c g = Inr (c1, g1) \<and> all_blink_ready (eyes c1)"
proof (cases "real_of_int current_time_us \<ge> next_blink_time c")
  case False
  then show ?thesis using assms by (simp add: schedule_blink_def)
next
  case True
  from randint_range [of BLINK_MIN_DURATION BLINK_MAX_DURATION g]
  obtain n where n: "randint BLINK_MIN_DURATION BLINK_MAX_DURATION g = Inr (n, rng_next g)"
    "0 < n"
    by (auto simp: BLINK_MIN_DURATION_def BLINK_MAX_DURATION_def)
  from randint_range [of BLINK_INTERVAL_MIN "BLINK_INTERVAL_MIN * 2" "rng_next g"]
  obtain i where i: "randint BLINK_INTERVAL_MIN (BLINK_INTERVAL_MIN * 2) (rng_next g)
      = Inr (i, rng_next (rng_next g))"
    by (auto simp: BLINK_INTERVAL_MIN_def)
  have "all_blink_ready (map (\<lambda>(k, eye). (k, start_blink current_time_us n eye)) d)"
    if "all_blink_ready d" for d
    using that n(2)
    by (induction d) (auto simp: all_blink_ready_def eyes_values_def start_blink_ready)
  then show ?thesis using True n(1) i assms
    by (simp add: schedule_blink_def Let_def)
qed

lemma rest_override_ready:
  "all_blink_ready d \<Longrightarrow> all_blink_ready (map (\<lambda>(k, eye). (k, eye\<lparr>blink_factor := 1\<rparr>)) d)"
  by (induction d) (auto simp: all_blink_ready_def eyes_values_def blink_ready_def)

lemma update_rest_returns:
  assumes "mode c = MODE_REST" and "all_blink_ready (eyes c)"
  shows "\<exists>c' g'. update current_time_us face_position c g = Inr (c', g') \<and>
           mode c' = MODE_REST \<and> all_blink_ready (eyes c')"
proof -
  from schedule_blink_returns [OF assms(2), of current_time_us g]
  obtain c1 g1 where s: "schedule_blink current_time_us c g = Inr (c1, g1)"
    "all_blink_ready (eyes c1)" by blast
  from update_blink_all_returns [OF s(2), of current_time_us]
  obtain d where d: "update_blink_all current_time_us (eyes c1) = Inr d" "all_blink_ready d"
    by blast
  have m: "mode (c1\<lparr>eyes := d\<rparr>) = MODE_REST"
    using schedule_blink_frame [OF s(1)] assms(1) by simp
  show ?thesis
    using s(1) d(1) dispatch_rest [OF m, of current_time_us face_position g1] m
      rest_override_ready [OF d(2)]
    by (simp add: update_def)
qed

lemma run_ticks_rest_returns:
  "mode c = MODE_REST \<Longrightarrow> all_blink_ready (eyes c) \<Longrightarrow> \<exists>c' g'. run_ticks ts c g = Inr (c', g')"
proof (induction ts arbitrary: c g)
  case Nil
  then show ?case by simp
next
  case (Cons a ts)
  obtain now fp where a: "a = (now, fp)" by (cases a)
  from update_rest_returns [OF Cons.prems, of now fp g]
  obtain c1 g1 where u: "update now fp c g = Inr (c1, g1)" "mode c1 = MODE_REST"
    "all_blink_ready (eyes c1)" by blast
  from Cons.IH [OF u(2,3), of g1] show ?case using a u(1) by simp
qed

text \<open>
  C8. In Rest mode, over any run of consecutive ticks that return, the mode stays Rest
  and the MotionState fields of every eye keep their values; after at least one tick
  every eye's \<open>blink_factor\<close> is 1. Within one tick the blink scheduler and
  \<open>update_blink\<close> run first, as in every mode; the Rest override that follows writes
  \<open>blink_factor\<close> only, so the BlinkState variant, start and duration at the end of the
  tick are the ones \<open>update_blink\<close> left. When every eye is \<open>blink_ready\<close> the
  run returns, whatever its length, clock readings and targets.
\<close>

theorem rest_mode_isolation:
  assumes "mode c = MODE_REST"
  shows "(all_blink_ready (eyes c) \<longrightarrow> (\<exists>c3 g3. run_ticks ts c g = Inr (c3, g3))) \<and>
         (run_ticks ts c g = Inr (c', g') \<longrightarrow>
            mode c' = MODE_REST \<and> motion_states (eyes c') = motion_states (eyes c) \<and>
            (ts \<noteq> [] \<longrightarrow> (\<forall>eye \<in> set (eyes_values (eyes c')). blink_factor eye = 1))) \<and>
         (update current_time_us face_position c g = Inr (c2, g2) \<longrightarrow>
            (\<exists>c1 d. schedule_blink current_time_us c g = Inr (c1, g2) \<and>
               update_blink_all current_time_us (eyes c1) = Inr d \<and>
               blink_timings (eyes c2) = blink_timings d \<and>
               motion_states (eyes c2) = motion_states (eyes c) \<and>
               (\<forall>eye \<in> set (eyes_values (eyes c2)). blink_factor eye = 1)))"
proof -
  have a: "run_ticks ts c g = Inr (c', g') \<longrightarrow>
            mode c' = MODE_REST \<and> motion_states (eyes c') = motion_states (eyes c) \<and>
            (ts \<noteq> [] \<longrightarrow> (\<forall>eye \<in> set (eyes_values (eyes c')). blink_factor eye = 1))"
    using run_ticks_rest_frame [OF assms] by blast
  have b: "\<exists>c1 d. schedule_blink current_time_us c g = Inr (c1, g2) \<and>
               update_blink_all current_time_us (eyes c1) = Inr d \<and>
               blink_timings (eyes c2) = blink_timings d \<and>
               motion_states (eyes c2) = motion_states (eyes c) \<and>
               (\<forall>eye \<in> set (eyes_values (eyes c2)). blink_factor eye = 1)"
    if u: "update current_time_us face_position c g = Inr (c2, g2)"
  proof -
    from update_rest [OF assms u] obtain c1 d where
      s: "schedule_blink current_time_us c g = Inr (c1, g2)"
         "update_blink_all current_time_us (eyes c1) = Inr d"
         "c2 = c1\<lparr>eyes := map (\<lambda>(k, eye). (k, eye\<lparr>blink_factor := 1\<rparr>)) d\<rparr>"
      by blast
    have "blink_timings (eyes c2) = blink_timings d"
      using s(3) rest_override_frame [of d] by simp
    then show ?thesis using s(1,2) update_rest_frame [OF assms u] by blast
  qed
  have r: "all_blink_ready (eyes c) \<longrightarrow> (\<exists>c3 g3. run_ticks ts c g = Inr (c3, g3))"
    using run_ticks_rest_returns [OF assms] by blast
  show ?thesis using r a b by blast
qed

lemma rest_run:
  "run_ticks [(4000000, None), (4018000, None)] rest_fixture (\<lambda>_. 0) =
     Inr (\<lparr> mode = MODE_REST,
             eyes = [(''left'', (Eye_init ''left'' 0)\<lparr>blink_state := ENBLINK,
                        blink_start_time := 4000000, blink_duration := 36000, blink_factor := 1\<rparr>),
                     (''right'', (Eye_init ''right'' 0)\<lparr>blink_state := ENBLINK,
                        blink_start_time := 4000000, blink_duration := 36000, blink_factor := 1\<rparr>),
                     (''middle'', (Eye_init ''middle'' 0)\<lparr>blink_state := ENBLINK,
                        blink_start_time := 4000000, blink_duration := 36000, blink_factor := 1\<rparr>)],
             last_blink_time = 4000000,
             next_blink_time = 8108000 \<rparr>, \<lambda>_. 0)"
  by (simp add: rest_fixture_def fixture_controller_def update_def schedule_blink_def
      dispatch_mode_def update_blink_def start_blink_def truediv_def randint_def rng_next_def
      Eye_init_def Let_def DEFAULT_MODE_def MODE_REST_def MODE_TRACKING_def MODE_WANDERING_def
      BLINK_MIN_DURATION_def BLINK_MAX_DURATION_def BLINK_INTERVAL_MIN_def)

lemma rest_tick:
  "update 4000000 None rest_fixture (\<lambda>_. 0) =
     Inr (\<lparr> mode = MODE_REST,
             eyes = [(''left'', (Eye_init ''left'' 0)\<lparr>blink_state := ENBLINK,
                        blink_start_time := 4000000, blink_duration := 36000, blink_factor := 1\<rparr>),
                     (''right'', (Eye_init ''right'' 0)\<lparr>blink_state := ENBLINK,
                        blink_start_time := 4000000, blink_duration := 36000, blink_factor := 1\<rparr>),
                     (''middle'', (Eye_init ''middle'' 0)\<lparr>blink_state := ENBLINK,
                        blink_start_time := 4000000, blink_duration := 36000, blink_factor := 1\<rparr>)],
             last_blink_time = 4000000,
             next_blink_time = 8108000 \<rparr>, \<lambda>_. 0)"
  by (simp add: rest_fixture_def fixture_controller_def update_def schedule_blink_def
      dispatch_mode_def update_blink_def start_blink_def truediv_def randint_def rng_next_def
      Eye_init_def Let_def DEFAULT_MODE_def MODE_REST_def MODE_TRACKING_def MODE_WANDERING_def
      BLINK_MIN_DURATION_def BLINK_MAX_DURATION_def BLINK_INTERVAL_MIN_def)

theorem rest_mode_isolation_witness:
  "mode rest_fixture = MODE_REST \<and>
   all_blink_ready (eyes rest_fixture) \<and>
   (\<exists>c' g'. run_ticks [(4000000, None), (4018000, None)] rest_fixture (\<lambda>_. 0) = Inr (c', g') \<and>
      motion_states (eyes c') = motion_states (eyes rest_fixture) \<and>
      (\<forall>eye \<in> set (eyes_values (eyes c')). blink_factor eye = 1)) \<and>
   (\<exists>c2 g2. update 4000000 None rest_fixture (\<lambda>_. 0) = Inr (c2, g2) \<and>
      motion_states (eyes c2) = motion_states (eyes rest_fixture) \<and>
      (\<forall>eye \<in> set (eyes_values (eyes c2)). blink_factor eye = 1) \<and>
      blink_timings (eyes c2) \<noteq> blink_timings (eyes rest_fixture))"
proof -
  have h: "mode rest_fixture = MODE_REST" by (simp add: rest_fixture_def)
  obtain c' where r: "run_ticks [(4000000, None), (4018000, None)] rest_fixture (\<lambda>_. 0)
      = Inr (c', \<lambda>_. 0)"
    using rest_run by blast
  obtain c2 where u: "update 4000000 None rest_fixture (\<lambda>_. 0) = Inr (c2, \<lambda>_. 0)"
    and bt: "blink_timings (eyes c2) \<noteq> blink_timings (eyes rest_fixture)"
    using rest_tick
    by (simp add: blink_timings_def blink_timing_def rest_fixture_def fixture_controller_def
        Eye_init_def)
  from rest_mode_isolation [OF h, of "[(4000000, None), (4018000, None)]" "\<lambda>_. 0" c' "\<lambda>_. 0"
      4000000 None c2 "\<lambda>_. 0"] r u
  have "motion_states (eyes c') = motion_states (eyes rest_fixture) \<and>
      (\<forall>eye \<in> set (eyes_values (eyes c')). blink_factor eye = 1) \<and>
      motion_states (eyes c2) = motion_states (eyes rest_fixture) \<and>
      (\<forall>eye \<in> set (eyes_values (eyes c2)). blink_factor eye = 1)"
    by auto
  moreover have "all_blink_ready (eyes rest_fixture)"
    by (simp add: all_blink_ready_def eyes_values_def blink_ready_def rest_fixture_def
        fixture_controller_def Eye_init_def)
  ultimately show ?thesis using h r u bt by blast
qed

subsection \<open>Tracking through a tick\<close>

text \<open>
  The same position at the level of the controller: a tick in Tracking mode with a target
  leaves the eye stored under \<open>middle\<close> at the scaled target, since the autonomous updates
  of \<open>left\<close> and \<open>right\<close> that follow write to their own keys.
\<close>

lemma map_of_store_eye:
  "map_of (store_eye k eye' d) k' =
     (if k' = k then map_option (\<lambda>_. eye') (map_of d k) else map_of d k')"
  by (induction d) auto

lemma update_autonomous_at_other:
  assumes "update_autonomous_at k current_time_us d g = Inr (d', g')" and "k' \<noteq> k"
  shows "map_of d' k' = map_of d k'"
  using assms
  by (auto simp: update_autonomous_at_def map_of_store_eye split: option.splits sum.splits)

lemma update_tracking_at_key:
  assumes "update_tracking_at k tx ty d = Inr d'"
  shows "\<exists>eye. map_of d k = Some eye \<and> map_of d' k = Some (update_tracking tx ty eye)"
  using assms
  by (auto simp: update_tracking_at_def map_of_store_eye split: option.splits)

lemma tracking_tick_primary:
  assumes "mode c = MODE_TRACKING"
    and "update current_time_us (Some (tx, ty)) c g = Inr (c', g')"
  shows "\<exists>eye'. map_of (eyes c') ''middle'' = Some eye' \<and>
           eye_x eye' = tx * 0.9 * real_of_int DISPLAY_SIZE \<and>
           eye_y eye' = ty * 0.9 * real_of_int DISPLAY_SIZE"
proof -
  from assms(2) obtain c1 g1 d where
    s: "schedule_blink current_time_us c g = Inr (c1, g1)"
       "update_blink_all current_time_us (eyes c1) = Inr d"
       "dispatch_mode current_time_us (Some (tx, ty)) (c1\<lparr>eyes := d\<rparr>) g1 = Inr (c', g')"
    by (auto simp: update_def split: sum.splits)
  have m: "mode (c1\<lparr>eyes := d\<rparr>) = MODE_TRACKING"
    using schedule_blink_frame [OF s(1)] assms(1) by simp
  from s(3) m obtain d1 d2 g2 where
    t: "update_tracking_at ''middle'' tx ty d = Inr d1"
       "update_autonomous_at ''left'' current_time_us d1 g1 = Inr (d2, g2)"
       "update_autonomous_at ''right'' current_time_us d2 g2 = Inr (eyes c', g')"
    by (auto simp: dispatch_mode_def split: sum.splits)
  from update_tracking_at_key [OF t(1)] obtain eye where
    e: "map_of d1 ''middle'' = Some (update_tracking tx ty eye)" by blast
  have "map_of (eyes c') ''middle'' = map_of d1 ''middle''"
    using update_autonomous_at_other [OF t(2), of "''middle''"]
      update_autonomous_at_other [OF t(3), of "''middle''"] by simp
  then show ?thesis using e by (simp add: update_tracking_def Let_def)
qed

lemma tracking_tick_example:
  "\<exists>c' eye'. update 0 (Some (0.5, - 0.5)) fixture_controller (\<lambda>_. 0) = Inr (c', \<lambda>_. 0) \<and>
      map_of (eyes c') ''middle'' = Some eye' \<and> eye_x eye' = 108 \<and> eye_y eye' = - 108"
  by (simp add: fixture_controller_def update_def schedule_blink_def dispatch_mode_def
      update_blink_def update_autonomous_at_def update_tracking_at_def update_autonomous_def
      update_tracking_def Eye_init_def Let_def DEFAULT_MODE_def MODE_TRACKING_def
      DISPLAY_SIZE_def)

end
